theory Spec2Isabelle
  imports Main
begin

section \<open>Python strings and their display\<close>

text \<open>
  The notebook \<^verbatim>\<open>02.1_Bedrock_KB_Langchain_with_op.ipynb\<close> handles Python \<^verbatim>\<open>str\<close>
  values and one list of them.  A Python string is modelled as a \<^typ>\<open>string\<close> whose
  characters are read as code points below 256; a string with a code point of 256 or
  above, for which \<^verbatim>\<open>repr\<close> has further cases, is not a value of the model, and what
  is proved here about strings is proved about the strings below that bound.
  Exceptions are values of \<open>exn\<close>; a
  computation that may raise returns \<open>exn + 'a\<close> with \<open>Inl\<close> for the exception.
  \<open>ServiceError\<close> stands for an exception that comes back from an external call, with
  its message; \<open>NotModelled\<close> marks an input that the model of an operation leaves out.
\<close>

datatype exn =
    KeyError string
  | ValueError
  | IndexError
  | NotModelled
  | ServiceError string

text \<open>
  \<^verbatim>\<open>repr(s)\<close> for a string: single quotes unless the text holds a single quote and no
  double quote; the quote in use and the backslash are escaped with a backslash, tab,
  newline and carriage return are written \<^verbatim>\<open>\t \n \r\<close>, every other code point that is
  not printable is written \<^verbatim>\<open>\xhh\<close>, and the rest is copied.
\<close>

definition py_isprintable :: "char \<Rightarrow> bool" where
  "py_isprintable c =
     (let n = (of_char c :: nat)
      in (32 \<le> n \<and> n < 127) \<or> (161 \<le> n \<and> n \<noteq> 173))"

definition hex_digit :: "nat \<Rightarrow> char" where
  "hex_digit k = ''0123456789abcdef'' ! (k mod 16)"

definition py_repr_quote :: "string \<Rightarrow> char" where
  "py_repr_quote s =
     (if CHR 0x27 \<in> set s \<and> CHR 0x22 \<notin> set s then CHR 0x22 else CHR 0x27)"

definition py_repr_char :: "char \<Rightarrow> char \<Rightarrow> string" where
  "py_repr_char quote c =
     (if c = quote \<or> c = CHR 0x5C then [CHR 0x5C, c]
      else if c = CHR 0x09 then [CHR 0x5C, CHR ''t'']
      else if c = CHR 0x0A then [CHR 0x5C, CHR ''n'']
      else if c = CHR 0x0D then [CHR 0x5C, CHR ''r'']
      else if \<not> py_isprintable c then
        [CHR 0x5C, CHR ''x'', hex_digit (of_char c div 16), hex_digit (of_char c)]
      else [c])"

definition py_repr :: "string \<Rightarrow> string" where
  "py_repr s =
     (let quote = py_repr_quote s
      in [quote] @ concat (map (py_repr_char quote) s) @ [quote])"

text \<open>\<^verbatim>\<open>sep.join(xs)\<close>.\<close>

fun py_join :: "string \<Rightarrow> string list \<Rightarrow> string" where
  "py_join sep [] = []"
| "py_join sep [x] = x"
| "py_join sep (x # y # ys) = x @ sep @ py_join sep (y # ys)"

text \<open>
  The values handed to the prompt template: a string (the question) or a list of strings
  (the contexts).  \<^verbatim>\<open>str(v)\<close> of a string is the string; of a list it is the list
  display, the \<^verbatim>\<open>repr\<close> of each element between brackets, separated by a comma and a
  space.
\<close>

datatype pyval = PyStr string | PyList "string list"

fun py_str :: "pyval \<Rightarrow> string" where
  "py_str (PyStr s) = s"
| "py_str (PyList xs) = ''['' @ py_join '', '' (map py_repr xs) @ '']''"

section \<open>Format strings\<close>

text \<open>
  Python's \<^verbatim>\<open>template.format(**kwargs)\<close>.  The notebook's prompt template is in the
  default \<^verbatim>\<open>f-string\<close> format, for which formatting the prompt is this operation on
  the template text and the keyword arguments.  The template is read left to right:
  \<^verbatim>\<open>{{\<close> and \<^verbatim>\<open>}}\<close> stand for one brace, \<^verbatim>\<open>{name}\<close> is replaced by \<^verbatim>\<open>str(kwargs[name])\<close>
  (\<^verbatim>\<open>KeyError\<close> when the name is missing, \<^verbatim>\<open>IndexError\<close> for the empty name, which asks
  for a positional argument), a lone brace and an unfinished field raise \<^verbatim>\<open>ValueError\<close>.
  A substituted value is not read again.  Only plain keyword names are modelled, the
  one form \<^verbatim>\<open>PROMPT_TEMPLATE\<close> uses: a field with a conversion, a format specification,
  an attribute or an index, and a field that starts with a digit (a positional index
  when all of it is digits) give \<open>NotModelled\<close>.
\<close>

datatype scan_state = Text | Open | Close | Field string

definition emit :: "string \<Rightarrow> exn + string \<Rightarrow> exn + string" where
  "emit v r = (case r of Inl e \<Rightarrow> Inl e | Inr s \<Rightarrow> Inr (v @ s))"

fun py_format_scan :: "(string \<rightharpoonup> pyval) \<Rightarrow> scan_state \<Rightarrow> string \<Rightarrow> exn + string" where
  "py_format_scan kw Text [] = Inr []"
| "py_format_scan kw Open [] = Inl ValueError"
| "py_format_scan kw Close [] = Inl ValueError"
| "py_format_scan kw (Field n) [] = Inl ValueError"
| "py_format_scan kw Text (c # cs) =
     (if c = CHR ''{'' then py_format_scan kw Open cs
      else if c = CHR ''}'' then py_format_scan kw Close cs
      else emit [c] (py_format_scan kw Text cs))"
| "py_format_scan kw Open (c # cs) =
     (if c = CHR ''{'' then emit ''{'' (py_format_scan kw Text cs)
      else if c = CHR ''}'' then Inl IndexError
      else if c \<in> set ''!:.[0123456789'' then Inl NotModelled
      else py_format_scan kw (Field [c]) cs)"
| "py_format_scan kw Close (c # cs) =
     (if c = CHR ''}'' then emit ''}'' (py_format_scan kw Text cs)
      else Inl ValueError)"
| "py_format_scan kw (Field n) (c # cs) =
     (if c = CHR ''}'' then
        (case kw n of
           None \<Rightarrow> Inl (KeyError n)
         | Some v \<Rightarrow> emit (py_str v) (py_format_scan kw Text cs))
      else if c \<in> set ''!:.[{'' then Inl NotModelled
      else py_format_scan kw (Field (n @ [c])) cs)"

definition py_format :: "string \<Rightarrow> (string \<rightharpoonup> pyval) \<Rightarrow> exn + string" where
  "py_format t kw = py_format_scan kw Text t"

section \<open>The prompt template\<close>

definition PROMPT_TEMPLATE :: string where
  "PROMPT_TEMPLATE =
     ''\<newline>'' @
     ''    Human: You are a financial advisor AI system, and provides answers to questions by using fact based and statistical information when possible. \<newline>'' @
     ''    Use the following pieces of information to provide a concise answer to the question enclosed in <question> tags. \<newline>'' @
     ''    If you don't know the answer, just say that you don't know, don't try to make up an answer.\<newline>'' @
     ''    <context>\<newline>'' @
     ''    {context}\<newline>'' @
     ''    </context>\<newline>'' @
     ''\<newline>'' @
     ''    <question>\<newline>'' @
     ''    {question}\<newline>'' @
     ''    </question>\<newline>'' @
     ''\<newline>'' @
     ''    The response should be specific and use statistics or numbers when possible.\<newline>'' @
     ''\<newline>'' @
     ''    Assistant:''"

record prompt_template =
  template :: string
  input_variables :: "string list"

definition claude_prompt :: prompt_template where
  "claude_prompt =
     \<lparr>template = PROMPT_TEMPLATE, input_variables = [''context'', ''question'']\<rparr>"

text \<open>\<^verbatim>\<open>claude_prompt.format(context=contexts, question=query)\<close>.\<close>

definition claude_prompt_format :: "string list \<Rightarrow> string \<Rightarrow> exn + string" where
  "claude_prompt_format ctxs q =
     py_format (template claude_prompt)
       [''context'' \<mapsto> PyList ctxs, ''question'' \<mapsto> PyStr q]"

section \<open>Retrieved documents\<close>

text \<open>
  A retrieved \<^verbatim>\<open>Document\<close> has a \<^verbatim>\<open>page_content\<close> and a \<^verbatim>\<open>metadata\<close> dictionary (the
  source location and the relevance score), which the notebook never reads: its type is
  left open.
\<close>

record 'm document =
  page_content :: string
  metadata :: 'm

text \<open>
  \<^verbatim>\<open>get_contexts\<close>: the loop appends the \<^verbatim>\<open>page_content\<close> of each retrieved result to
  the list \<^verbatim>\<open>contexts\<close>, which starts empty.
\<close>

fun get_contexts_loop :: "'m document list \<Rightarrow> string list \<Rightarrow> string list" where
  "get_contexts_loop [] contexts = contexts"
| "get_contexts_loop (retrievedResult # rest) contexts =
     get_contexts_loop rest (contexts @ [page_content retrievedResult])"

definition get_contexts :: "'m document list \<Rightarrow> string list" where
  "get_contexts ds = get_contexts_loop ds []"

section \<open>Clients, model, retriever and chain\<close>

text \<open>
  \<^verbatim>\<open>Config(connect_timeout=120, read_timeout=120, retries={'max_attempts': 0})\<close> and the
  two \<^verbatim>\<open>boto3.client\<close> calls.  A client records the configuration it was given, if any.
\<close>

record botocore_config =
  connect_timeout :: int
  read_timeout :: int
  retries_max_attempts :: int

record boto3_client =
  service_name :: string
  config :: "botocore_config option"

definition bedrock_config :: botocore_config where
  "bedrock_config = \<lparr>connect_timeout = 120, read_timeout = 120, retries_max_attempts = 0\<rparr>"

definition bedrock_client :: boto3_client where
  "bedrock_client = \<lparr>service_name = ''bedrock-runtime'', config = None\<rparr>"

definition bedrock_agent_client :: boto3_client where
  "bedrock_agent_client =
     \<lparr>service_name = ''bedrock-agent-runtime'', config = Some bedrock_config\<rparr>"

record claude_kwargs =
  temperature :: int
  top_k :: int
  max_tokens_to_sample :: int

definition model_kwargs_claude :: claude_kwargs where
  "model_kwargs_claude = \<lparr>temperature = 0, top_k = 10, max_tokens_to_sample = 3000\<rparr>"

record bedrock_llm =
  model_id :: string
  model_kwargs :: claude_kwargs
  client :: boto3_client

definition llm :: bedrock_llm where
  "llm =
     \<lparr>model_id = ''anthropic.claude-instant-v1'',
      model_kwargs = model_kwargs_claude,
      client = bedrock_client\<rparr>"

definition kb_id :: string where
  "kb_id = ''YWNES8HIIH''"

record vector_search_configuration =
  numberOfResults :: int

record retrieval_configuration =
  vectorSearchConfiguration :: vector_search_configuration

record kb_retriever =
  knowledge_base_id :: string
  retrieval_config :: retrieval_configuration

definition retriever :: kb_retriever where
  "retriever =
     \<lparr>knowledge_base_id = kb_id,
      retrieval_config = \<lparr>vectorSearchConfiguration = \<lparr>numberOfResults = 4\<rparr>\<rparr>\<rparr>"

text \<open>\<^verbatim>\<open>RetrievalQA.from_chain_type(...)\<close> with the keyword arguments of the notebook.\<close>

record retrieval_qa =
  chain_llm :: bedrock_llm
  chain_type :: string
  chain_retriever :: kb_retriever
  return_source_documents :: bool
  chain_prompt :: prompt_template

definition qa :: retrieval_qa where
  "qa =
     \<lparr>chain_llm = llm,
      chain_type = ''stuff'',
      chain_retriever = retriever,
      return_source_documents = True,
      chain_prompt = claude_prompt\<rparr>"

section \<open>External calls\<close>

text \<open>
  The two calls that leave the notebook are recorded in a trace, as the notebook makes
  them: a retrieval names the retriever object it is called on and the query it is
  given, a model invocation names the model object and the prompt.  The trace says that
  a call was made and with which arguments of the notebook; the request that the
  libraries build from them and send is not part of it.  What comes back is not the
  notebook's to decide: it is a parameter \<open>env\<close>, which may answer differently as the
  trace grows, with an exception or with a value.
\<close>

datatype call = Retrieve kb_retriever string | Invoke bedrock_llm string

record 'm env =
  knowledge_base :: "call list \<Rightarrow> kb_retriever \<Rightarrow> string \<Rightarrow> exn + 'm document list"
  model :: "call list \<Rightarrow> bedrock_llm \<Rightarrow> string \<Rightarrow> exn + string"

text \<open>\<^verbatim>\<open>r.get_relevant_documents(query=q)\<close> and \<^verbatim>\<open>l(p)\<close>.\<close>

definition get_relevant_documents ::
  "'m env \<Rightarrow> kb_retriever \<Rightarrow> string \<Rightarrow> call list \<Rightarrow> (exn + 'm document list) \<times> call list" where
  "get_relevant_documents e r q tr = (knowledge_base e tr r q, tr @ [Retrieve r q])"

definition llm_call ::
  "'m env \<Rightarrow> bedrock_llm \<Rightarrow> string \<Rightarrow> call list \<Rightarrow> (exn + string) \<times> call list" where
  "llm_call e l p tr = (model e tr l p, tr @ [Invoke l p])"

section \<open>The notebook's cells\<close>

text \<open>
  The global variables of the manual question-answering flow and the trace of external
  calls.  Each cell is a step on this state that also says whether it raised; a cell
  that raises leaves the variable it was about to assign as it was.  The question, a
  literal in the notebook, is a parameter here.
\<close>

record 'm session =
  docs :: "'m document list"
  contexts :: "string list"
  query :: string
  prompt :: string
  response :: string
  calls :: "call list"

text \<open>\<^verbatim>\<open>docs = retriever.get_relevant_documents(query=q)\<close>\<close>

definition run_retrieve :: "'m env \<Rightarrow> string \<Rightarrow> 'm session \<Rightarrow> exn option \<times> 'm session" where
  "run_retrieve e q s =
     (case get_relevant_documents e retriever q (calls s) of
        (Inl x, tr) \<Rightarrow> (Some x, s\<lparr>calls := tr\<rparr>)
      | (Inr ds, tr) \<Rightarrow> (None, s\<lparr>docs := ds, calls := tr\<rparr>))"

text \<open>\<^verbatim>\<open>contexts = get_contexts(docs)\<close>\<close>

definition run_contexts :: "'m session \<Rightarrow> exn option \<times> 'm session" where
  "run_contexts s = (None, s\<lparr>contexts := get_contexts (docs s)\<rparr>)"

text \<open>\<^verbatim>\<open>query = q; prompt = claude_prompt.format(context=contexts, question=query)\<close>\<close>

definition run_prompt :: "string \<Rightarrow> 'm session \<Rightarrow> exn option \<times> 'm session" where
  "run_prompt q s =
     (case claude_prompt_format (contexts s) q of
        Inl x \<Rightarrow> (Some x, s\<lparr>query := q\<rparr>)
      | Inr p \<Rightarrow> (None, s\<lparr>query := q, prompt := p\<rparr>))"

text \<open>\<^verbatim>\<open>response = llm(prompt)\<close>\<close>

definition run_llm :: "'m env \<Rightarrow> 'm session \<Rightarrow> exn option \<times> 'm session" where
  "run_llm e s =
     (case llm_call e llm (prompt s) (calls s) of
        (Inl x, tr) \<Rightarrow> (Some x, s\<lparr>calls := tr\<rparr>)
      | (Inr r, tr) \<Rightarrow> (None, s\<lparr>response := r, calls := tr\<rparr>))"

text \<open>
  Prompt assembly, the two cells between retrieval and generation, run one after the
  other; the second runs only when the first did not raise.
\<close>

definition run_assembly :: "string \<Rightarrow> 'm session \<Rightarrow> exn option \<times> 'm session" where
  "run_assembly q s =
     (case run_contexts s of
        (Some x, s') \<Rightarrow> (Some x, s')
      | (None, s') \<Rightarrow> run_prompt q s')"

section \<open>The text around the two placeholders\<close>

text \<open>
  \<^verbatim>\<open>PROMPT_TEMPLATE\<close> is three pieces of fixed text with the two placeholders between
  them (\<open>PROMPT_TEMPLATE_segments\<close> below): the context section of a rendered prompt is
  what stands between \<open>prompt_head\<close> and \<open>prompt_mid\<close>.
\<close>

definition prompt_head :: string where
  "prompt_head =
     ''\<newline>'' @
     ''    Human: You are a financial advisor AI system, and provides answers to questions by using fact based and statistical information when possible. \<newline>'' @
     ''    Use the following pieces of information to provide a concise answer to the question enclosed in <question> tags. \<newline>'' @
     ''    If you don't know the answer, just say that you don't know, don't try to make up an answer.\<newline>'' @
     ''    <context>\<newline>'' @
     ''    ''"

definition prompt_mid :: string where
  "prompt_mid =
     ''\<newline>'' @
     ''    </context>\<newline>'' @
     ''\<newline>'' @
     ''    <question>\<newline>'' @
     ''    ''"

definition prompt_tail :: string where
  "prompt_tail =
     ''\<newline>'' @
     ''    </question>\<newline>'' @
     ''\<newline>'' @
     ''    The response should be specific and use statistics or numbers when possible.\<newline>'' @
     ''\<newline>'' @
     ''    Assistant:''"

section \<open>Properties of \<open>get_contexts\<close>\<close>

lemma get_contexts_loop_append:
  "get_contexts_loop ds acc = acc @ map page_content ds"
  by (induction ds arbitrary: acc) simp_all

lemma get_contexts_map: "get_contexts ds = map page_content ds"
  by (simp add: get_contexts_def get_contexts_loop_append)

text \<open>
  Claim C9.  For every list of retrieved documents, \<open>get_contexts\<close> returns a list of
  the same length whose \<open>i\<close>-th element is the \<open>page_content\<close> of the \<open>i\<close>-th
  document: one text per document, in the documents' order.  The cell that calls it
  assigns \<open>contexts\<close> and nothing else: \<open>docs\<close>, the documents it read, are what they
  were.
\<close>

theorem get_contexts_pointwise:
  "length (get_contexts ds) = length ds
   \<and> (\<forall>i < length ds. get_contexts ds ! i = page_content (ds ! i))
   \<and> docs (snd (run_contexts s)) = docs s
   \<and> contexts (snd (run_contexts s)) = get_contexts (docs s)"
proof -
  have m: "get_contexts ds = map page_content ds"
    by (rule get_contexts_map)
  have "length (get_contexts ds) = length ds"
    using m by simp
  moreover have "\<forall>i < length ds. get_contexts ds ! i = page_content (ds ! i)"
    using m by simp
  moreover have "docs (snd (run_contexts s)) = docs s"
    by (simp add: run_contexts_def)
  moreover have "contexts (snd (run_contexts s)) = get_contexts (docs s)"
    by (simp add: run_contexts_def)
  ultimately show ?thesis by blast
qed

theorem get_contexts_pointwise_witness:
  "length (get_contexts [\<lparr>page_content = ''a'', metadata = ()\<rparr>, \<lparr>page_content = ''b'', metadata = ()\<rparr>]) = 2
   \<and> get_contexts [\<lparr>page_content = ''a'', metadata = ()\<rparr>, \<lparr>page_content = ''b'', metadata = ()\<rparr>] ! 0 = ''a''
   \<and> get_contexts [\<lparr>page_content = ''a'', metadata = ()\<rparr>, \<lparr>page_content = ''b'', metadata = ()\<rparr>] ! 1 = ''b''
   \<and> docs (snd (run_contexts
        \<lparr>docs = [\<lparr>page_content = ''a'', metadata = ()\<rparr>], contexts = [], query = ''q'',
         prompt = [], response = [], calls = []\<rparr>))
       = [\<lparr>page_content = ''a'', metadata = ()\<rparr>]
   \<and> contexts (snd (run_contexts
        \<lparr>docs = [\<lparr>page_content = ''a'', metadata = ()\<rparr>], contexts = [], query = ''q'',
         prompt = [], response = [], calls = []\<rparr>))
       = [''a'']"
proof -
  let ?ds = "[\<lparr>page_content = ''a'', metadata = ()\<rparr>, \<lparr>page_content = ''b'', metadata = ()\<rparr>]"
  let ?s = "\<lparr>docs = [\<lparr>page_content = ''a'', metadata = ()\<rparr>], contexts = [], query = ''q'',
         prompt = [], response = [], calls = []\<rparr>"
  note t = get_contexts_pointwise [of ?ds ?s]
  from t have len: "length (get_contexts ?ds) = length ?ds"
    by (rule conjunct1)
  from t have nth: "\<forall>i < length ?ds. get_contexts ?ds ! i = page_content (?ds ! i)"
    by (rule conjunct2 [THEN conjunct1])
  from t have fr: "docs (snd (run_contexts ?s)) = docs ?s"
    by (rule conjunct2 [THEN conjunct2, THEN conjunct1])
  from t have cx: "contexts (snd (run_contexts ?s)) = get_contexts (docs ?s)"
    by (rule conjunct2 [THEN conjunct2, THEN conjunct2])
  have n0: "get_contexts ?ds ! 0 = ''a''" using nth by simp
  have n1: "get_contexts ?ds ! 1 = ''b''" using nth by simp
  have g: "get_contexts (docs ?s) = [''a'']" using cx by (simp add: run_contexts_def get_contexts_def)
  show ?thesis using len n0 n1 fr cx g by simp
qed

section \<open>The rendered prompt\<close>

lemma PROMPT_TEMPLATE_segments:
  "PROMPT_TEMPLATE = prompt_head @ ''{context}'' @ prompt_mid @ ''{question}'' @ prompt_tail"
  by (simp add: PROMPT_TEMPLATE_def prompt_head_def prompt_mid_def prompt_tail_def)

lemma emit_emit: "emit u (emit v r) = emit (u @ v) r"
  by (cases r) (simp_all add: emit_def)

lemma emit_Inr: "emit v (Inr s) = Inr (v @ s)"
  by (simp add: emit_def)

text \<open>Text without braces is copied.\<close>

lemma scan_text:
  "CHR ''{'' \<notin> set lit \<Longrightarrow> CHR ''}'' \<notin> set lit \<Longrightarrow>
   py_format_scan kw Text (lit @ rest) = emit lit (py_format_scan kw Text rest)"
proof (induction lit)
  case Nil
  show ?case by (cases "py_format_scan kw Text rest") (simp_all add: emit_def)
next
  case (Cons c lit)
  then show ?case by (auto simp: emit_emit)
qed

lemma scan_context:
  "kw ''context'' = Some v \<Longrightarrow>
   py_format_scan kw Text (''{context}'' @ rest) = emit (py_str v) (py_format_scan kw Text rest)"
  by simp

lemma scan_question:
  "kw ''question'' = Some v \<Longrightarrow>
   py_format_scan kw Text (''{question}'' @ rest) = emit (py_str v) (py_format_scan kw Text rest)"
  by simp

lemma scan_head:
  "py_format_scan kw Text (prompt_head @ rest) = emit prompt_head (py_format_scan kw Text rest)"
  by (rule scan_text) (simp_all add: prompt_head_def)

lemma scan_mid:
  "py_format_scan kw Text (prompt_mid @ rest) = emit prompt_mid (py_format_scan kw Text rest)"
  by (rule scan_text) (simp_all add: prompt_mid_def)

lemma scan_tail: "py_format_scan kw Text prompt_tail = Inr prompt_tail"
proof -
  have "py_format_scan kw Text (prompt_tail @ []) = emit prompt_tail (py_format_scan kw Text [])"
    by (rule scan_text) (simp_all add: prompt_tail_def)
  then show ?thesis by (simp add: emit_Inr)
qed

text \<open>
  Formatting \<open>claude_prompt\<close> never raises: the result is the fixed text with the display
  of the list of contexts in the first slot and the question in the second.
\<close>

lemma claude_prompt_format_shape:
  "claude_prompt_format ctxs q =
     Inr (prompt_head @ py_str (PyList ctxs) @ prompt_mid @ q @ prompt_tail)"
proof -
  let ?kw = "[''context'' \<mapsto> PyList ctxs, ''question'' \<mapsto> PyStr q]"
  have c: "?kw ''context'' = Some (PyList ctxs)" by simp
  have qq: "?kw ''question'' = Some (PyStr q)" by simp
  have "py_format_scan ?kw Text PROMPT_TEMPLATE
      = Inr (prompt_head @ py_str (PyList ctxs) @ prompt_mid @ q @ prompt_tail)"
    by (simp only: PROMPT_TEMPLATE_segments scan_head scan_mid scan_tail
          scan_context [of ?kw, OF c] scan_question [of ?kw, OF qq] emit_Inr py_str.simps(1))
  then show ?thesis
    by (simp add: claude_prompt_format_def py_format_def claude_prompt_def)
qed

lemma py_join_single: "py_join sep [x] = x"
  by simp

lemmas py_repr_eval =
  py_repr_def py_repr_quote_def py_repr_char_def py_isprintable_def hex_digit_def Let_def

text \<open>
  Claim C2 says that the passage texts stand in the context section in the caller's
  order, joined by a separator.  The cells that render the prompt hand the list
  \<open>contexts\<close> itself to \<open>claude_prompt.format\<close>, not its texts joined, and the slot
  receives the display of the list.  For the single passage \<open>a\<close>, where joining with
  any separator gives the passage text itself (\<open>py_join_single\<close>), the context section
  is the five characters \<open>['a']\<close> and not \<open>a\<close>.
\<close>

theorem render_context_not_joined_texts:
  "claude_prompt_format (get_contexts [\<lparr>page_content = ''a'', metadata = ()\<rparr>]) ''Q?''
     = Inr (prompt_head @ ''['a']'' @ prompt_mid @ ''Q?'' @ prompt_tail)
   \<and> claude_prompt_format (get_contexts [\<lparr>page_content = ''a'', metadata = ()\<rparr>]) ''Q?''
     \<noteq> Inr (prompt_head
            @ py_join (''\<newline>'' @ ''\<newline>'')
                (map page_content [\<lparr>page_content = ''a'', metadata = ()\<rparr>])
            @ prompt_mid @ ''Q?'' @ prompt_tail)"
  by (simp add: claude_prompt_format_shape get_contexts_map py_repr_eval)

text \<open>
  Claim C8 says that with zero retrieved passages the prompt is rendered with an empty
  context section.  The same cells, handed the empty list, do render the prompt without
  an exception, but the context section holds the display of the empty list, the two
  characters \<open>[]\<close>; here for the question of the specification's first scenario.
\<close>

theorem render_no_passages_context_not_empty:
  "claude_prompt_format (get_contexts ([] :: unit document list)) ''What is 2+2?''
     = Inr (prompt_head @ ''[]'' @ prompt_mid @ ''What is 2+2?'' @ prompt_tail)
   \<and> claude_prompt_format (get_contexts ([] :: unit document list)) ''What is 2+2?''
     \<noteq> Inr (prompt_head @ [] @ prompt_mid @ ''What is 2+2?'' @ prompt_tail)"
  by (simp add: claude_prompt_format_shape get_contexts_map)

section \<open>Prompt assembly has no effect but the prompt\<close>

lemma run_prompt_ok:
  "run_prompt q s =
     (None, s\<lparr>query := q,
               prompt := prompt_head @ py_str (PyList (contexts s)) @ prompt_mid @ q @ prompt_tail\<rparr>)"
  by (simp add: run_prompt_def claude_prompt_format_shape)

lemma run_assembly_ok:
  "run_assembly q s =
     (None, s\<lparr>contexts := get_contexts (docs s), query := q,
               prompt := prompt_head @ py_str (PyList (get_contexts (docs s)))
                         @ prompt_mid @ q @ prompt_tail\<rparr>)"
  by (simp add: run_assembly_def run_contexts_def run_prompt_ok)

text \<open>
  The two external calls, for comparison: each adds its call to the trace, and what it
  assigns is the environment's answer.
\<close>

lemma run_retrieve_calls:
  "calls (snd (run_retrieve e q s)) = calls s @ [Retrieve retriever q]"
  by (simp add: run_retrieve_def get_relevant_documents_def split: sum.splits)

lemma run_llm_calls:
  "calls (snd (run_llm e s)) = calls s @ [Invoke llm (prompt s)]"
  by (simp add: run_llm_def llm_call_def split: sum.splits)

text \<open>
  Claim C4.  Rendering the prompt (the cell that calls \<open>get_contexts\<close> and the cell
  that calls \<open>claude_prompt.format\<close>) is deterministic and pure.  Run on the same
  question from two states of the notebook that hold the same retrieved documents,
  whatever else the two states hold and whatever calls were made before, it does not
  raise and assigns the same prompt; the prompt is a function of the question and the
  documents alone.  It makes no external call (the trace is what it was) and changes
  neither the documents nor the response.
\<close>

theorem render_deterministic_pure:
  "docs s = docs s' \<Longrightarrow>
     fst (run_assembly q s) = None
   \<and> prompt (snd (run_assembly q s)) = prompt (snd (run_assembly q s'))
   \<and> Inr (prompt (snd (run_assembly q s))) = claude_prompt_format (get_contexts (docs s)) q
   \<and> calls (snd (run_assembly q s)) = calls s
   \<and> docs (snd (run_assembly q s)) = docs s
   \<and> response (snd (run_assembly q s)) = response s"
proof -
  assume same: "docs s = docs s'"
  let ?p = "\<lambda>ds. prompt_head @ py_str (PyList (get_contexts ds)) @ prompt_mid @ q @ prompt_tail"
  have p: "prompt (snd (run_assembly q t)) = ?p (docs t)" for t :: "'a session"
    by (simp add: run_assembly_ok)
  have "fst (run_assembly q s) = None"
    by (simp add: run_assembly_ok)
  moreover have "prompt (snd (run_assembly q s)) = prompt (snd (run_assembly q s'))"
    using same by (simp only: p)
  moreover have "Inr (prompt (snd (run_assembly q s))) = claude_prompt_format (get_contexts (docs s)) q"
    by (simp only: p claude_prompt_format_shape)
  moreover have "calls (snd (run_assembly q s)) = calls s"
    and "docs (snd (run_assembly q s)) = docs s"
    and "response (snd (run_assembly q s)) = response s"
    by (simp_all add: run_assembly_ok)
  ultimately show ?thesis by blast
qed

theorem render_deterministic_pure_witness:
  "fst (run_assembly ''Q?''
      \<lparr>docs = [\<lparr>page_content = ''a'', metadata = ()\<rparr>], contexts = [], query = [],
       prompt = [], response = [], calls = []\<rparr>) = None
   \<and> prompt (snd (run_assembly ''Q?''
      \<lparr>docs = [\<lparr>page_content = ''a'', metadata = ()\<rparr>], contexts = [], query = [],
       prompt = [], response = [], calls = []\<rparr>))
     = prompt (snd (run_assembly ''Q?''
      \<lparr>docs = [\<lparr>page_content = ''a'', metadata = ()\<rparr>], contexts = [''x''], query = ''old'',
       prompt = ''p'', response = ''r'', calls = [Retrieve retriever ''old'', Invoke llm ''p'']\<rparr>))
   \<and> calls (snd (run_assembly ''Q?''
      \<lparr>docs = [\<lparr>page_content = ''a'', metadata = ()\<rparr>], contexts = [], query = [],
       prompt = [], response = [], calls = []\<rparr>)) = []"
  using render_deterministic_pure
    [of "\<lparr>docs = [\<lparr>page_content = ''a'', metadata = ()\<rparr>], contexts = [], query = [],
          prompt = [], response = [], calls = []\<rparr>"
        "\<lparr>docs = [\<lparr>page_content = ''a'', metadata = ()\<rparr>], contexts = [''x''], query = ''old'',
          prompt = ''p'', response = ''r'', calls = [Retrieve retriever ''old'', Invoke llm ''p'']\<rparr>"
        "''Q?''"]
  by simp

section \<open>Which client carries the retry configuration\<close>

text \<open>
  Claim C6 says that no client retries.  \<open>bedrock_config\<close>, which sets the number of
  retry attempts to 0, is handed to \<open>bedrock_agent_client\<close> only.  The client of the
  model, \<open>bedrock_client\<close>, is built without a configuration, and the retriever is
  built without a client: the setting reaches neither of the two objects that make the
  external calls.
\<close>

theorem retry_config_not_on_model_client:
  "config (client llm) = None
   \<and> client (chain_llm qa) = bedrock_client
   \<and> config bedrock_agent_client = Some bedrock_config
   \<and> retries_max_attempts bedrock_config = 0"
  by (simp add: llm_def qa_def bedrock_client_def bedrock_agent_client_def bedrock_config_def)

end
